theory Spec2Isabelle
  imports Main "HOL-Library.Word"
begin

section \<open>Errors, panics and machine integers\<close>

text \<open>
  The cache package of cayley (package \<open>cache\<close>: the cache with its options, the request
  multiplexer and the stream materializer handed to clients) is embedded function by
  function. A Go \<open>error\<close> value is an \<open>error option\<close> (\<open>None\<close> is \<open>nil\<close>); a function that
  can panic returns \<open>panic + 'a\<close> with \<open>Inl\<close> the panic. \<open>int64\<close> is a 64-bit word read
  with \<open>sint\<close>; Go's \<open>int\<close> indices and \<open>time.Duration\<close> values are modelled as \<open>int\<close>,
  no arithmetic on them in the modelled code can overflow except the cursor increment of
  a stream, which no statement below depends on.
\<close>

datatype error =
    UnableToParseSize string
  | UnableToConvert string
  | NumError string
  | StreamError string

datatype panic =
    IndexOutOfRange
  | ResetClosedStream
  | MaterializeClosedStream
  | CloseOfClosedChannel
  | InitParseSize error
  | FuzzSizeWithError
  | FuzzNegativeSize

type_synonym int64 = "64 word"

section \<open>Size strings (\<open>sizexp\<close>, \<open>parseSizeBytes\<close>, the \<open>Size\<close> and \<open>Timeout\<close> options)\<close>

text \<open>
  \<open>sizexp\<close> is the regular expression
  \<^verbatim>\<open>^[0-9]*(?:\.[0-9]*)? ?([kmgtpKMGTP]?)[bB]?$\<close>.
  Its pieces start with characters of pairwise disjoint classes (digits, the dot, the
  space, the unit letters, \<open>b\<close>/\<open>B\<close>), so a string has at most one way to match and the
  matcher below reads it left to right, each piece taking what it can. The expression has
  ONE capturing group, the unit letter; \<open>sizexp\<close> returns its text on a match.
\<close>

definition isDigit :: "char \<Rightarrow> bool" where
  "isDigit c = (c \<in> set ''0123456789'')"

definition isUnit :: "char \<Rightarrow> bool" where
  "isUnit c = (c \<in> set ''kmgtpKMGTP'')"

definition isB :: "char \<Rightarrow> bool" where
  "isB c = (c = CHR ''b'' \<or> c = CHR ''B'')"

definition optional :: "(char \<Rightarrow> bool) \<Rightarrow> string \<Rightarrow> string" where
  "optional p s = (case s of [] \<Rightarrow> [] | c # r \<Rightarrow> if p c then r else s)"

definition sizexp :: "string \<Rightarrow> string option" where
  "sizexp s =
     (let s1 = dropWhile isDigit s;
          s2 = (case s1 of [] \<Rightarrow> []
                | c # r \<Rightarrow> if c = CHR ''.'' then dropWhile isDigit r else s1);
          s3 = optional (\<lambda>c. c = CHR '' '') s2;
          unit = (case s3 of [] \<Rightarrow> [] | c # r \<Rightarrow> if isUnit c then [c] else []);
          s4 = drop (length unit) s3;
          s5 = optional isB s4
      in if s5 = [] then Some unit else None)"

text \<open>
  The strings the expression matches, read off it piece by piece: digits, then
  optionally a dot and digits, then optionally a space, then optionally a unit letter
  (the captured group), then optionally \<open>b\<close> or \<open>B\<close>, and nothing more. \<open>sizexp\<close> is
  shown below to match exactly these strings and to return exactly this group.
\<close>

definition sizexp_shape :: "string \<Rightarrow> string \<Rightarrow> bool" where
  "sizexp_shape s unit =
     (\<exists>ds frac sp b.
        s = ds @ frac @ sp @ unit @ b \<and>
        list_all isDigit ds \<and>
        (frac = [] \<or> (\<exists>fs. frac = CHR ''.'' # fs \<and> list_all isDigit fs)) \<and>
        (sp = [] \<or> sp = '' '') \<and>
        (unit = [] \<or> (\<exists>c. unit = [c] \<and> isUnit c)) \<and>
        (b = [] \<or> (\<exists>c. b = [c] \<and> isB c)))"

text \<open>The part of \<open>sizexp\<close> after the number, on its own.\<close>

definition tail_match :: "string \<Rightarrow> string option" where
  "tail_match s2 =
     (let s3 = optional (\<lambda>c. c = CHR '' '') s2;
          unit = (case s3 of [] \<Rightarrow> [] | c # r \<Rightarrow> if isUnit c then [c] else []);
          s4 = drop (length unit) s3;
          s5 = optional isB s4
      in if s5 = [] then Some unit else None)"

text \<open>
  \<open>regexp.FindStringSubmatch\<close>: \<open>nil\<close> (here \<open>None\<close>) when the string does not match,
  else the whole match followed by the text of each capturing group. The expression is
  anchored at both ends, so the whole match is the string itself.
\<close>

definition FindStringSubmatch :: "string \<Rightarrow> string list option" where
  "FindStringSubmatch sz = map_option (\<lambda>unit. [sz, unit]) (sizexp sz)"

text \<open>Indexing a Go slice panics out of range.\<close>

definition slice_index :: "'a list \<Rightarrow> nat \<Rightarrow> panic + 'a" where
  "slice_index xs i = (if i < length xs then Inr (xs ! i) else Inl IndexOutOfRange)"

text \<open>\<open>strings.ToLower\<close> on the ASCII letters, the only ones \<open>sizexp\<close> can capture.\<close>

definition lower_char :: "char \<Rightarrow> char" where
  "lower_char c =
     (if 65 \<le> (of_char c :: nat) \<and> (of_char c :: nat) \<le> 90
      then char_of ((of_char c :: nat) + 32) else c)"

definition ToLower :: "string \<Rightarrow> string" where
  "ToLower s = map lower_char s"

text \<open>
  \<open>float64\<close> and \<open>strconv.ParseFloat\<close> belong to the Go runtime and library, not to the
  repository. They are a parameter of the model: a type \<open>'f\<close> of floats with the three
  operations \<open>parseSizeBytes\<close> uses. Nothing below assumes anything about them.
\<close>

record 'f float64_ops =
  ParseFloat :: "string \<Rightarrow> error + 'f"
  times1024 :: "'f \<Rightarrow> 'f"
  toInt64 :: "'f \<Rightarrow> int64"

text \<open>
  The \<open>switch\<close> of \<open>parseSizeBytes\<close> with its \<open>fallthrough\<close>s: entering at \<open>p\<close> multiplies
  five times, at \<open>t\<close> four times, ..., at \<open>k\<close> once, anything else not at all.
\<close>

definition unit_switch :: "'f float64_ops \<Rightarrow> string \<Rightarrow> 'f \<Rightarrow> 'f" where
  "unit_switch fl unit bytes =
     (let b1 = (if unit = ''p'' then times1024 fl bytes else bytes);
          b2 = (if unit \<in> set [''p'', ''t''] then times1024 fl b1 else b1);
          b3 = (if unit \<in> set [''p'', ''t'', ''g''] then times1024 fl b2 else b2);
          b4 = (if unit \<in> set [''p'', ''t'', ''g'', ''m''] then times1024 fl b3 else b3);
          b5 = (if unit \<in> set [''p'', ''t'', ''g'', ''m'', ''k''] then times1024 fl b4 else b4)
      in b5)"

definition parseSizeBytes :: "'f float64_ops \<Rightarrow> string \<Rightarrow> panic + (int64 \<times> error option)" where
  "parseSizeBytes fl sz =
     (case FindStringSubmatch sz of
        None \<Rightarrow> Inr (0, Some (UnableToParseSize sz))
      | Some m \<Rightarrow>
          (case slice_index m 1 of
             Inl p \<Rightarrow> Inl p
           | Inr m1 \<Rightarrow>
               (case ParseFloat fl m1 of
                  Inl err \<Rightarrow> Inr (0, Some err)
                | Inr bytes \<Rightarrow>
                    (case slice_index m 2 of
                       Inl p \<Rightarrow> Inl p
                     | Inr m2 \<Rightarrow> Inr (toInt64 fl (unit_switch fl (ToLower m2) bytes), None)))))"

subsection \<open>The cache and its options\<close>

text \<open>
  \<open>cachedRequest\<close> and \<open>Cache\<close> as the structs declare them. Times are nanoseconds on one
  clock; \<open>time.Since t\<close> at the instant \<open>now\<close> is \<open>now - t\<close>.
\<close>

record ('v, 'm) cachedRequest =
  results :: "'v list"
  dbView :: 'm
  birth :: int
  flags :: "8 word"

record ('v, 'm) Cache =
  timeout :: int
  sizeBytes :: int64
  stable :: "string \<rightharpoonup> ('v, 'm) cachedRequest"
  unstable :: "string \<rightharpoonup> ('v, 'm) cachedRequest"
  recent :: "('v, 'm) cachedRequest list"
  frequent :: "('v, 'm) cachedRequest list"
  rHist :: "('v, 'm) cachedRequest list"
  fHist :: "('v, 'm) cachedRequest list"

type_synonym ('v, 'm) CacheOption = "('v, 'm) Cache \<Rightarrow> panic + (('v, 'm) Cache \<times> error option)"

text \<open>The argument of \<open>Size\<close> is an \<open>interface{}\<close>: an \<open>int64\<close>, a \<open>string\<close>, or a value of
  any other dynamic type (kept by its printed form).\<close>

datatype iface = Int64 int64 | String string | OtherType string

definition Size :: "'f float64_ops \<Rightarrow> iface \<Rightarrow> ('v, 'm) CacheOption" where
  "Size fl ifce c =
     (case ifce of
        Int64 sz \<Rightarrow> Inr (c\<lparr>sizeBytes := sz\<rparr>, None)
      | String sz \<Rightarrow>
          (case parseSizeBytes fl sz of
             Inl p \<Rightarrow> Inl p
           | Inr (sb, Some err) \<Rightarrow> Inr (c, Some err)
           | Inr (sb, None) \<Rightarrow> Inr (c\<lparr>sizeBytes := sb\<rparr>, None))
      | OtherType sz \<Rightarrow> Inr (c, Some (UnableToConvert sz)))"

definition Timeout :: "int \<Rightarrow> ('v, 'm) CacheOption" where
  "Timeout t c = Inr (c\<lparr>timeout := t\<rparr>, None)"

text \<open>\<open>New\<close>: the defaults (1GB, five minutes), then each option in turn; the first option
  that fails ends the construction with its error and no cache.\<close>

fun apply_opts :: "('v, 'm) CacheOption list \<Rightarrow> ('v, 'm) Cache
    \<Rightarrow> panic + (('v, 'm) Cache option \<times> error option)" where
  "apply_opts [] c = Inr (Some c, None)"
| "apply_opts (opt # opts) c =
     (case opt c of
        Inl p \<Rightarrow> Inl p
      | Inr (c', Some err) \<Rightarrow> Inr (None, Some err)
      | Inr (c', None) \<Rightarrow> apply_opts opts c')"

definition New :: "'f float64_ops \<Rightarrow> ('v, 'm) CacheOption list
    \<Rightarrow> panic + (('v, 'm) Cache option \<times> error option)" where
  "New fl opts =
     (case parseSizeBytes fl ''1GB'' of
        Inl p \<Rightarrow> Inl p
      | Inr (sb, Some err) \<Rightarrow> Inl (InitParseSize err)
      | Inr (sb, None) \<Rightarrow>
          apply_opts opts
            \<lparr>timeout = 5 * 60 * 1000000000, sizeBytes = sb,
             stable = Map.empty, unstable = Map.empty,
             recent = [], frequent = [], rHist = [], fHist = []\<rparr>)"

subsection \<open>\<open>Cache.Request\<close>\<close>

text \<open>
  \<open>Request\<close> returns a materializer of the cached request on a hit (\<open>Hit cr\<close>: the value
  of \<open>cr.newMaterializer()\<close>, bound to \<open>cr\<close>). Otherwise control reaches the miss path,
  which the source leaves as a comment (\<open>MissPath\<close>). The clock reading \<open>now\<close> of
  \<open>time.Since\<close> is an argument.
\<close>

datatype ('v, 'm) requested = Hit "('v, 'm) cachedRequest" | MissPath

definition Request :: "('v, 'm) Cache \<Rightarrow> int \<Rightarrow> string \<Rightarrow> bool \<Rightarrow> ('v, 'm) requested" where
  "Request c now query immutable =
     (case stable c query of
        Some cr \<Rightarrow> if now - birth cr < timeout c then Hit cr else MissPath
      | None \<Rightarrow> MissPath)"

section \<open>The request multiplexer (\<open>newRequest\<close>, \<open>getValue\<close>)\<close>

text \<open>
  A \<open>graph.Value\<close> is an interface value: \<open>'v option\<close>, \<open>None\<close> for \<open>nil\<close>. The backend
  stream \<open>dbStream\<close> is a \<open>Materializer\<close> of another package: an opaque state \<open>'b\<close> with
  its two methods the request calls, \<open>Materialize\<close> and \<open>Error\<close>.
\<close>

record ('v, 'b) Materializer =
  db_Materialize :: "'b \<Rightarrow> ('v option \<times> bool) \<times> 'b"
  db_Error :: "'b \<Rightarrow> error option"

text \<open>Modelled from the spec: the struct \<open>cacheItem\<close>, which no file of the package declares.
  It has the fields the request's code reads from the elements of its view (\<open>value\<close>,
  \<open>immutable\<close>, \<open>birth\<close>), which are the value, immutability and birth the spec gives
  a cached entry.\<close>

record 'v cacheItem =
  item_value :: "'v option"
  item_immutable :: bool
  item_birth :: int

record 'v valueAsk =
  ask_index :: int
  ask_value :: "'v option"
  ask_err :: "error option"

text \<open>
  The goroutine \<open>process\<close> started by \<open>newRequest\<close> is a loop around one \<open>select\<close>; it
  alone reads \<open>waiting\<close>. Each pull is a goroutine of its own: launched, it calls
  \<open>dbStream.Materialize\<close> (storing \<open>dbStream.Error()\<close> in \<open>r.err\<close> when that reports
  \<open>false\<close>), then blocks sending the value on \<open>materialized\<close> until \<open>process\<close> receives it.
  The state of a request is the struct's fields, the local \<open>waiting\<close> of \<open>process\<close>, the
  pull goroutines alive (\<open>pulls\<close>), and what has been sent on the answer channels so far
  (\<open>answers\<close>; a channel is named by a number, and \<open>None\<close> is a channel closed with
  nothing sent). \<open>n_Materialize\<close> and \<open>n_received\<close> only count: the calls of
  \<open>dbStream.Materialize\<close>, and the values \<open>process\<close> has received on \<open>materialized\<close>.
\<close>

datatype 'v pull = Launched | Sending "'v option"

record ('v, 'b) request =
  view :: "'v cacheItem list"
  dbStream :: 'b
  streams :: "nat set"
  r_err :: "error option"
  running :: bool
  waiting :: "nat list"
  pulls :: "'v pull list"
  answers :: "(nat \<times> 'v valueAsk option) list"
  n_Materialize :: nat
  n_received :: nat

definition newRequest :: "'b \<Rightarrow> ('v, 'b) request" where
  "newRequest db =
     \<lparr>view = [], dbStream = db, streams = {}, r_err = None, running = True,
      waiting = [], pulls = [], answers = [], n_Materialize = 0, n_received = 0\<rparr>"

text \<open>
  \<open>case pipe, ok := <-r.asks\<close> with \<open>ok\<close>: the ask read from \<open>pipe.in\<close> is served from the
  view when its index is below \<open>len(r.view)\<close> (indexing the view panics on a negative
  index); otherwise a pull is launched if \<open>waiting\<close> is \<open>nil\<close>, and \<open>pipe.out\<close> is
  appended to \<open>waiting\<close>.
\<close>

definition on_ask :: "nat \<Rightarrow> 'v valueAsk \<Rightarrow> ('v, 'b) request \<Rightarrow> panic + ('v, 'b) request" where
  "on_ask out ask r =
     (if \<not> running r then Inr r
      else if ask_index ask < int (length (view r)) then
        (if ask_index ask < 0 then Inl IndexOutOfRange
         else Inr (r\<lparr>answers := answers r @
                 [(out, Some (ask\<lparr>ask_value := item_value (view r ! nat (ask_index ask))\<rparr>))]\<rparr>))
      else Inr (r\<lparr>pulls := (if waiting r = [] then pulls r @ [Launched] else pulls r),
                  waiting := waiting r @ [out]\<rparr>))"

text \<open>The body of the \<open>k\<close>-th pull goroutine up to its send.\<close>

definition on_pull :: "('v, 'b) Materializer \<Rightarrow> nat \<Rightarrow> ('v, 'b) request \<Rightarrow> ('v, 'b) request" where
  "on_pull db k r =
     (if k < length (pulls r) \<and> pulls r ! k = Launched then
        (case db_Materialize db (dbStream r) of
           ((val, ok), b) \<Rightarrow>
             r\<lparr>dbStream := b,
               r_err := (if ok then r_err r else db_Error db b),
               pulls := (pulls r)[k := Sending val],
               n_Materialize := n_Materialize r + 1\<rparr>)
      else r)"

text \<open>
  \<open>case val := <-materialized\<close>, receiving from the \<open>k\<close>-th pull goroutine: every channel
  of \<open>waiting\<close> is sent \<open>valueAsk{value: val, err: r.err}\<close> (the index keeps its zero
  value) by a goroutine of its own, each taken to send on the channel of its iteration
  and to read \<open>r.err\<close> as it stands now; then \<open>waiting = nil\<close>. Nothing is written to
  \<open>r.view\<close>.
\<close>

definition on_materialized :: "nat \<Rightarrow> ('v, 'b) request \<Rightarrow> ('v, 'b) request" where
  "on_materialized k r =
     (if running r \<and> k < length (pulls r) then
        (case pulls r ! k of
           Launched \<Rightarrow> r
         | Sending val \<Rightarrow>
             r\<lparr>answers := answers r @
                  map (\<lambda>ansCh. (ansCh, Some \<lparr>ask_index = 0, ask_value = val, ask_err = r_err r\<rparr>))
                    (waiting r),
               waiting := [],
               pulls := take k (pulls r) @ drop (Suc k) (pulls r),
               n_received := n_received r + 1\<rparr>)
      else r)"

text \<open>\<open>case pipe, ok := <-r.asks\<close> without \<open>ok\<close> (the channel was closed): \<open>process\<close>
  returns, and its deferred function closes every channel of \<open>waiting\<close>.\<close>

definition on_asks_closed :: "('v, 'b) request \<Rightarrow> ('v, 'b) request" where
  "on_asks_closed r =
     (if running r
      then r\<lparr>running := False, answers := answers r @ map (\<lambda>ch. (ch, None)) (waiting r)\<rparr>
      else r)"

datatype 'v event =
    Ask nat "'v valueAsk"
  | Pull nat
  | Materialized nat
  | AsksClosed

fun step :: "('v, 'b) Materializer \<Rightarrow> 'v event \<Rightarrow> ('v, 'b) request \<Rightarrow> panic + ('v, 'b) request" where
  "step db (Ask out ask) r = on_ask out ask r"
| "step db (Pull k) r = Inr (on_pull db k r)"
| "step db (Materialized k) r = Inr (on_materialized k r)"
| "step db AsksClosed r = Inr (on_asks_closed r)"

fun run :: "('v, 'b) Materializer \<Rightarrow> 'v event list \<Rightarrow> ('v, 'b) request \<Rightarrow> panic + ('v, 'b) request" where
  "run db [] r = Inr r"
| "run db (ev # evs) r = (case step db ev r of Inl p \<Rightarrow> Inl p | Inr r' \<Rightarrow> run db evs r')"

text \<open>
  \<open>getValue\<close>: the ask it sends on \<open>pipe.in\<close>, and what it returns for the answer read
  from \<open>pipe.out\<close> (\<open>None\<close> when the channel was closed with nothing sent).
\<close>

definition getValue_ask :: "int \<Rightarrow> 'v valueAsk" where
  "getValue_ask index =
     (let index = (if index < 0 then 0 else index)
      in \<lparr>ask_index = index, ask_value = None, ask_err = None\<rparr>)"

definition getValue_return :: "('v, 'b) request \<Rightarrow> 'v valueAsk option \<Rightarrow> 'v option \<times> bool" where
  "getValue_return r ans =
     (case ans of
        Some a \<Rightarrow> (ask_value a, ask_err a = None)
      | None \<Rightarrow> (None, r_err r = None))"

text \<open>The earlier \<open>getValue\<close> (file \<open>request.go\<close>) takes a pointer to the client's index:
  it clamps the pointed-to index, sends it, and overwrites it with the answer's index.\<close>

definition getValue_ptr_ask :: "int \<Rightarrow> int \<times> 'v valueAsk" where
  "getValue_ptr_ask clientIndex =
     (let clientIndex = (if clientIndex < 0 then 0 else clientIndex)
      in (clientIndex, \<lparr>ask_index = clientIndex, ask_value = None, ask_err = None\<rparr>))"

definition getValue_ptr_return :: "'v valueAsk \<Rightarrow> int \<times> 'v option \<times> error option" where
  "getValue_ptr_return ans = (ask_index ans, ask_value ans, ask_err ans)"

subsection \<open>The earlier \<open>newRequest\<close> (file \<open>request.go\<close>)\<close>

text \<open>
  The earlier \<open>process\<close> differs in two places. An ask is served by the first item of the
  view at or after the asked index that is immutable or younger than the cache's timeout
  (the answer carries that item's index); the loop indexes the view at the asked index
  first, which panics when it is negative. The broadcast carries the index
  \<open>len(r.view)\<close>. Its error is a variable of the goroutine, kept in \<open>r_err\<close> here, and it
  never returns. Each ask comes with the clock reading at which it is handled.
\<close>

definition fresh :: "int \<Rightarrow> int \<Rightarrow> 'v cacheItem \<Rightarrow> bool" where
  "fresh tmo now item = (item_immutable item \<or> now - item_birth item < tmo)"

definition on_ask_v0 :: "int \<Rightarrow> int \<Rightarrow> nat \<Rightarrow> 'v valueAsk \<Rightarrow> ('v, 'b) request
    \<Rightarrow> panic + ('v, 'b) request" where
  "on_ask_v0 tmo now out ask r =
     (if \<not> running r then Inr r
      else if ask_index ask < 0 then Inl IndexOutOfRange
      else (case find (\<lambda>i. fresh tmo now (view r ! i)) [nat (ask_index ask) ..< length (view r)] of
              Some i \<Rightarrow>
                Inr (r\<lparr>answers := answers r @
                   [(out, Some (ask\<lparr>ask_index := int i, ask_value := item_value (view r ! i)\<rparr>))]\<rparr>)
            | None \<Rightarrow>
                Inr (r\<lparr>pulls := (if waiting r = [] then pulls r @ [Launched] else pulls r),
                       waiting := waiting r @ [out]\<rparr>)))"

definition on_materialized_v0 :: "nat \<Rightarrow> ('v, 'b) request \<Rightarrow> ('v, 'b) request" where
  "on_materialized_v0 k r =
     (if running r \<and> k < length (pulls r) then
        (case pulls r ! k of
           Launched \<Rightarrow> r
         | Sending val \<Rightarrow>
             r\<lparr>answers := answers r @
                  map (\<lambda>ansCh. (ansCh, Some \<lparr>ask_index = int (length (view r)), ask_value = val,
                                             ask_err = r_err r\<rparr>))
                    (waiting r),
               waiting := [],
               pulls := take k (pulls r) @ drop (Suc k) (pulls r),
               n_received := n_received r + 1\<rparr>)
      else r)"

fun step_v0 :: "int \<Rightarrow> ('v, 'b) Materializer \<Rightarrow> int \<times> 'v event \<Rightarrow> ('v, 'b) request
    \<Rightarrow> panic + ('v, 'b) request" where
  "step_v0 tmo db (now, Ask out ask) r = on_ask_v0 tmo now out ask r"
| "step_v0 tmo db (now, Pull k) r = Inr (on_pull db k r)"
| "step_v0 tmo db (now, Materialized k) r = Inr (on_materialized_v0 k r)"
| "step_v0 tmo db (now, AsksClosed) r = Inr r"

fun run_v0 :: "int \<Rightarrow> ('v, 'b) Materializer \<Rightarrow> (int \<times> 'v event) list \<Rightarrow> ('v, 'b) request
    \<Rightarrow> panic + ('v, 'b) request" where
  "run_v0 tmo db [] r = Inr r"
| "run_v0 tmo db (ev # evs) r =
     (case step_v0 tmo db ev r of Inl p \<Rightarrow> Inl p | Inr r' \<Rightarrow> run_v0 tmo db evs r')"

text \<open>A backend for examples: a script of the results of its successive \<open>Materialize\<close>
  calls, each with the error \<open>Error\<close> reports afterwards; exhausted, it reports
  \<open>(nil, false)\<close> and no error.\<close>

definition scripted :: "('v, (('v option \<times> bool) \<times> error option) list \<times> error option) Materializer" where
  "scripted =
     \<lparr>db_Materialize = (\<lambda>(script, e).
          case script of [] \<Rightarrow> ((None, False), ([], None))
          | (res, e') # rest \<Rightarrow> (res, (rest, e'))),
      db_Error = snd\<rparr>"

section \<open>The stream materializer handed to clients (\<open>stream\<close>)\<close>

text \<open>
  A stream has its fields and two channels. The channel \<open>reset\<close> carries at most one
  signal of a caller blocked in \<open>Reset\<close> (\<open>Pending\<close>) until the stream's goroutine takes
  it, or is closed. The channel \<open>values\<close> holds the value the goroutine is blocked
  sending (\<open>Offered\<close>), or nothing, or is closed. \<open>sid\<close> stands for the pointer by which
  the host request knows the stream.
\<close>

datatype sigchan = Idle | Pending | Closed

datatype 'v valchan = NoOffer | Offered "'v option" | ValuesClosed

datatype 'a wait = Got 'a | Blocked

record 'v stream =
  sid :: nat
  st_index :: int
  st_err :: "error option"
  closed :: bool
  st_reset :: sigchan
  st_values :: "'v valchan"

definition newStreamMaterializer :: "nat \<Rightarrow> 'v stream" where
  "newStreamMaterializer p =
     \<lparr>sid = p, st_index = 0, st_err = None, closed = False, st_reset = Idle, st_values = NoOffer\<rparr>"

text \<open>
  One turn of the loop of the stream's goroutine, cut where it waits for the host: the
  \<open>select\<close> (a closed \<open>reset\<close> ends the goroutine, whose deferred call closes \<open>values\<close>;
  a signal sets the index to 0; otherwise the index is incremented and asked of the
  host), then the handling of the host's answer.
\<close>

datatype 'v turn = Exits "'v stream" | Loops "'v stream" | AsksHost "'v stream" "'v valueAsk"

definition process_select :: "'v stream \<Rightarrow> 'v turn" where
  "process_select st =
     (case st_reset st of
        Closed \<Rightarrow> Exits (st\<lparr>st_values := ValuesClosed\<rparr>)
      | Pending \<Rightarrow> Loops (st\<lparr>st_index := 0, st_reset := Idle\<rparr>)
      | Idle \<Rightarrow>
          (let st' = st\<lparr>st_index := st_index st + 1\<rparr>
           in AsksHost st' (getValue_ask (st_index st'))))"

definition process_answer :: "('v, 'b) request \<Rightarrow> 'v stream \<Rightarrow> 'v valueAsk option \<Rightarrow> 'v turn" where
  "process_answer host st ans =
     (case getValue_return host ans of
        (val, ok) \<Rightarrow>
          if \<not> ok then Exits (st\<lparr>st_err := r_err host, st_values := ValuesClosed\<rparr>)
          else Loops (st\<lparr>st_values := Offered val\<rparr>))"

text \<open>
  \<open>Reset\<close> and \<open>Materialize\<close> panic on a closed stream. On an open one, \<open>Reset\<close> leaves
  its signal on the channel \<open>reset\<close> for the goroutine to take (its caller is blocked
  until then), and \<open>Materialize\<close> receives from \<open>values\<close>: the value offered, or
  \<open>(nil, false)\<close> from the closed channel, or it blocks while nothing is offered.
\<close>

definition Reset :: "'v stream \<Rightarrow> panic + 'v stream" where
  "Reset st =
     (if closed st then Inl ResetClosedStream
      else Inr (st\<lparr>st_reset := Pending\<rparr>))"

definition Materialize :: "'v stream \<Rightarrow> panic + (('v option \<times> bool) \<times> 'v stream) wait" where
  "Materialize st =
     (if closed st then Inl MaterializeClosedStream
      else Inr (case st_values st of
                  Offered value \<Rightarrow> Got ((value, True), st\<lparr>st_values := NoOffer\<rparr>)
                | ValuesClosed \<Rightarrow> Got ((None, False), st)
                | NoOffer \<Rightarrow> Blocked))"

text \<open>\<open>Close\<close> returns the error together with the stream and its host as it leaves
  them. Closing a channel that is closed already panics.\<close>

definition removeStream :: "('v, 'b) request \<Rightarrow> 'v stream \<Rightarrow> ('v, 'b) request" where
  "removeStream r st = r\<lparr>streams := streams r - {sid st}\<rparr>"

definition Close :: "'v stream \<Rightarrow> ('v, 'b) request
    \<Rightarrow> panic + (error option \<times> 'v stream \<times> ('v, 'b) request)" where
  "Close st host =
     (if closed st then Inr (st_err st, st, host)
      else (case st_reset st of
              Closed \<Rightarrow> Inl CloseOfClosedChannel
            | _ \<Rightarrow>
               (let st' = st\<lparr>closed := True, st_reset := Closed\<rparr>
                in Inr (st_err st', st', removeStream host st'))))"

definition Error :: "'v stream \<Rightarrow> error option" where
  "Error st = st_err st"

section \<open>The fuzzing harness, an invariant and example data\<close>

text \<open>\<open>Fuzz\<close> applies \<open>Size\<close> to a zero-valued cache and panics when it finds a byte
  budget other than 0 together with an error, or a negative budget.\<close>

definition zero_cache :: "('v, 'm) Cache" where
  "zero_cache =
     \<lparr>timeout = 0, sizeBytes = 0, stable = Map.empty, unstable = Map.empty,
      recent = [], frequent = [], rHist = [], fHist = []\<rparr>"

definition Fuzz :: "'f float64_ops \<Rightarrow> string \<Rightarrow> panic + int" where
  "Fuzz fl input =
     (case Size fl (String input) (zero_cache :: (unit, unit) Cache) of
        Inl p \<Rightarrow> Inl p
      | Inr (c, err) \<Rightarrow>
          (let sb = sizeBytes c
           in if sb \<noteq> 0 \<and> err \<noteq> None then Inl FuzzSizeWithError
              else if sint sb < 0 then Inl FuzzNegativeSize
              else Inr 0))"

text \<open>
  The invariant of the pull protocol: at most one pull goroutine is alive, one is alive
  only while some reader waits, and every call of \<open>Materialize\<close> is either received by
  \<open>process\<close> already or held by the pull goroutine that is sending it.
\<close>

definition pull_inv :: "('v, 'b) request \<Rightarrow> bool" where
  "pull_inv r =
     (length (pulls r) \<le> 1 \<and>
      (pulls r \<noteq> [] \<longrightarrow> waiting r \<noteq> []) \<and>
      n_Materialize r = n_received r + length (filter (\<lambda>p. p \<noteq> Launched) (pulls r)))"

text \<open>Example data. A float environment that is exact on whole decimal numbers and
  rejects every other string; a cache holding the key \<open>q\<close>, born at instant 0; two
  backend scripts.\<close>

definition digits_value :: "string \<Rightarrow> nat" where
  "digits_value s = foldl (\<lambda>a c. 10 * a + (of_char c - 48)) 0 s"

definition whole_floats :: "nat float64_ops" where
  "whole_floats =
     \<lparr>ParseFloat = (\<lambda>s. if s \<noteq> [] \<and> list_all isDigit s then Inr (digits_value s)
                         else Inl (NumError s)),
      times1024 = (\<lambda>x. x * 1024),
      toInt64 = of_nat\<rparr>"

definition cached_q :: "(nat, unit) cachedRequest" where
  "cached_q = \<lparr>results = [], dbView = (), birth = 0, flags = 0\<rparr>"

definition cache_q :: "int \<Rightarrow> (nat, unit) Cache" where
  "cache_q t =
     \<lparr>timeout = t, sizeBytes = 1073741824,
      stable = [''q'' \<mapsto> cached_q], unstable = Map.empty,
      recent = [cached_q], frequent = [], rHist = [], fHist = []\<rparr>"

type_synonym script = "((nat option \<times> bool) \<times> error option) list \<times> error option"

definition two_values :: script where
  "two_values = ([((Some 10, True), None), ((Some 20, True), None)], None)"

definition two_failures :: script where
  "two_failures =
     ([((None, False), Some (StreamError ''first'')),
       ((None, False), Some (StreamError ''second''))], None)"



definition served_twice :: "(nat, script) request" where
  "served_twice =
     \<lparr>view = [], dbStream = ([], None), streams = {}, r_err = None,
      running = True, waiting = [], pulls = [],
      answers = [(1, Some \<lparr>ask_index = 0, ask_value = Some 10, ask_err = None\<rparr>),
                 (2, Some \<lparr>ask_index = 0, ask_value = Some 20, ask_err = None\<rparr>)],
      n_Materialize = 2, n_received = 2\<rparr>"

definition failed_once :: "(nat, script) request" where
  "failed_once =
     \<lparr>view = [],
      dbStream = ([((None, False), Some (StreamError ''second''))], Some (StreamError ''first'')),
      streams = {}, r_err = Some (StreamError ''first''),
      running = True, waiting = [], pulls = [],
      answers = [(1, Some \<lparr>ask_index = 0, ask_value = None, ask_err = Some (StreamError ''first'')\<rparr>)],
      n_Materialize = 1, n_received = 1\<rparr>"

definition failed_twice :: "(nat, script) request" where
  "failed_twice =
     \<lparr>view = [], dbStream = ([], Some (StreamError ''second'')),
      streams = {}, r_err = Some (StreamError ''second''),
      running = True, waiting = [], pulls = [],
      answers = [(1, Some \<lparr>ask_index = 0, ask_value = None, ask_err = Some (StreamError ''first'')\<rparr>),
                 (2, Some \<lparr>ask_index = 0, ask_value = None, ask_err = Some (StreamError ''second'')\<rparr>)],
      n_Materialize = 2, n_received = 2\<rparr>"

definition host7 :: "(nat, script) request" where
  "host7 = (newRequest two_values)\<lparr>streams := {7}\<rparr>"

definition closed7 :: "nat stream" where
  "closed7 = (newStreamMaterializer 7)\<lparr>closed := True, st_reset := Closed\<rparr>"

section \<open>The matcher \<open>sizexp\<close> against the regular expression\<close>

lemma class_disjoint:
  "isUnit c \<Longrightarrow> \<not> isDigit c" "isB c \<Longrightarrow> \<not> isDigit c" "isB c \<Longrightarrow> \<not> isUnit c"
  "\<not> isDigit CHR ''.''" "\<not> isDigit CHR '' ''" "\<not> isUnit CHR ''.''" "\<not> isUnit CHR '' ''"
  "\<not> isB CHR ''.''" "\<not> isB CHR '' ''"
  "isUnit c \<Longrightarrow> c \<noteq> CHR ''.''" "isUnit c \<Longrightarrow> c \<noteq> CHR '' ''"
  "isB c \<Longrightarrow> c \<noteq> CHR ''.''" "isB c \<Longrightarrow> c \<noteq> CHR '' ''"
  by (auto simp: isDigit_def isUnit_def isB_def)

lemma dropWhile_digits_Cons:
  "list_all isDigit ds \<Longrightarrow> \<not> isDigit c \<Longrightarrow> dropWhile isDigit (ds @ c # rest) = c # rest"
  by (induction ds) auto

lemma dropWhile_digits_Nil: "list_all isDigit ds \<Longrightarrow> dropWhile isDigit ds = []"
  by (induction ds) auto

lemma sizexp_complete: "sizexp_shape s unit \<Longrightarrow> sizexp s = Some unit"
  unfolding sizexp_shape_def
  apply (elim exE conjE)
  apply (elim disjE exE conjE)
                 apply (simp_all add: sizexp_def optional_def dropWhile_digits_Cons
      dropWhile_digits_Nil class_disjoint Let_def)
  done

lemma tail_sound:
  assumes "tail_match s2 = Some u"
  shows "\<exists>sp b. s2 = sp @ u @ b \<and> (sp = [] \<or> sp = '' '') \<and>
           (u = [] \<or> (\<exists>c. u = [c] \<and> isUnit c)) \<and> (b = [] \<or> (\<exists>c. b = [c] \<and> isB c))"
proof -
  define sp where "sp = (case s2 of [] \<Rightarrow> [] | c # r \<Rightarrow> if c = CHR '' '' then '' '' else [])"
  define s3 where "s3 = optional (\<lambda>c. c = CHR '' '') s2"
  have s2: "s2 = sp @ s3" and sp: "sp = [] \<or> sp = '' ''"
    by (auto simp: sp_def s3_def optional_def split: list.splits)
  define unit where "unit = (case s3 of [] \<Rightarrow> [] | c # r \<Rightarrow> if isUnit c then [c] else [])"
  define s4 where "s4 = drop (length unit) s3"
  have s3: "s3 = unit @ s4" and un: "unit = [] \<or> (\<exists>c. unit = [c] \<and> isUnit c)"
    by (auto simp: unit_def s4_def split: list.splits)
  from assms have "optional isB s4 = []" and u: "u = unit"
    by (auto simp: tail_match_def Let_def s3_def unit_def s4_def split: if_splits)
  then have b: "s4 = [] \<or> (\<exists>c. s4 = [c] \<and> isB c)"
    by (auto simp: optional_def split: list.splits if_splits)
  from s2 s3 sp un b u show ?thesis by auto
qed

lemma sizexp_tail:
  "sizexp s = tail_match (case dropWhile isDigit s of [] \<Rightarrow> []
       | c # r \<Rightarrow> if c = CHR ''.'' then dropWhile isDigit r else dropWhile isDigit s)"
  by (simp add: sizexp_def tail_match_def Let_def)

lemma sizexp_sound:
  assumes "sizexp s = Some u"
  shows "sizexp_shape s u"
proof -
  define ds where "ds = takeWhile isDigit s"
  define s1 where "s1 = dropWhile isDigit s"
  have s: "s = ds @ s1" by (simp add: ds_def s1_def)
  have d: "list_all isDigit ds" by (auto simp: ds_def list_all_iff dest: set_takeWhileD)
  define frac where "frac = (case s1 of [] \<Rightarrow> []
       | c # r \<Rightarrow> if c = CHR ''.'' then c # takeWhile isDigit r else [])"
  define s2 where "s2 = (case s1 of [] \<Rightarrow> []
       | c # r \<Rightarrow> if c = CHR ''.'' then dropWhile isDigit r else s1)"
  have s1: "s1 = frac @ s2"
    by (auto simp: frac_def s2_def split: list.splits)
  have f: "frac = [] \<or> (\<exists>fs. frac = CHR ''.'' # fs \<and> list_all isDigit fs)"
    by (auto simp: frac_def list_all_iff split: list.splits dest: set_takeWhileD)
  have "tail_match s2 = Some u"
    using assms unfolding sizexp_tail s2_def s1_def .
  from tail_sound [OF this] obtain sp b where
    t: "s2 = sp @ u @ b" "sp = [] \<or> sp = '' ''" "u = [] \<or> (\<exists>c. u = [c] \<and> isUnit c)"
       "b = [] \<or> (\<exists>c. b = [c] \<and> isB c)"
    by blast
  have "s = ds @ frac @ sp @ u @ b"
    using s s1 t(1) by simp
  with d f t show ?thesis
    unfolding sizexp_shape_def by blast
qed

text \<open>\<open>sizexp\<close> matches exactly the strings of the expression and returns its group; a
  string has at most one group, and \<open>FindStringSubmatch\<close> is \<open>nil\<close> exactly on the
  strings that are not of the expression's shape.\<close>

lemma sizexp_iff_shape: "sizexp s = Some u \<longleftrightarrow> sizexp_shape s u"
  using sizexp_sound sizexp_complete by blast

lemma FindStringSubmatch_None_iff: "FindStringSubmatch sz = None \<longleftrightarrow> (\<forall>u. \<not> sizexp_shape sz u)"
  by (cases "sizexp sz") (auto simp: FindStringSubmatch_def sizexp_iff_shape [symmetric])

lemma sizexp_unit_no_digit: "sizexp s = Some u \<Longrightarrow> \<not> list_ex isDigit u"
  by (auto dest!: sizexp_sound simp: sizexp_shape_def class_disjoint)

section \<open>Size strings: what \<open>parseSizeBytes\<close> and \<open>Size\<close> return\<close>

lemmas sizexp_eval = FindStringSubmatch_def sizexp_def isDigit_def isUnit_def isB_def optional_def

lemma FindStringSubmatch_length: "FindStringSubmatch sz = Some m \<Longrightarrow> length m = 2"
  by (auto simp: FindStringSubmatch_def)

text \<open>
  A match has two entries, so \<open>m[1]\<close> is the unit letter and \<open>m[2]\<close> does not exist:
  whatever \<open>ParseFloat\<close> does, \<open>parseSizeBytes\<close> returns 0 with an error or panics on
  \<open>m[2]\<close>, and \<open>Size\<close> never stores a budget read from a string.
\<close>

lemma parseSizeBytes_cases:
  "parseSizeBytes fl sz = Inl IndexOutOfRange \<or> (\<exists>e. parseSizeBytes fl sz = Inr (0, Some e))"
  by (auto simp: parseSizeBytes_def slice_index_def dest!: FindStringSubmatch_length
      split: option.splits sum.splits)

lemma Size_String_cases:
  "Size fl (String sz) c = Inl IndexOutOfRange \<or> (\<exists>e. Size fl (String sz) c = Inr (c, Some e))"
  using parseSizeBytes_cases [of fl sz] by (auto simp: Size_def)

lemma New_never_returns:
  "New fl opts = Inl IndexOutOfRange \<or> (\<exists>e. New fl opts = Inl (InitParseSize e))"
  using parseSizeBytes_cases [of fl "''1GB''"] by (auto simp: New_def)

text \<open>
  With a \<open>ParseFloat\<close> that rejects every string without a digit, as Go's does for
  these strings of at most one letter, \<open>parseSizeBytes\<close> never panics: it returns 0 and
  an error on every string, and \<open>New\<close> panics on its default size.
\<close>

lemma parseSizeBytes_always_error:
  assumes "\<And>s. \<not> list_ex isDigit s \<Longrightarrow> isl (ParseFloat fl s)"
  shows "\<exists>e. parseSizeBytes fl sz = Inr (0, Some e)"
proof (cases "sizexp sz")
  case None
  then show ?thesis by (simp add: parseSizeBytes_def FindStringSubmatch_def)
next
  case (Some u)
  then have "isl (ParseFloat fl u)"
    using assms sizexp_unit_no_digit by blast
  with Some show ?thesis
    by (auto simp: parseSizeBytes_def FindStringSubmatch_def slice_index_def isl_def)
qed

lemma New_panics:
  assumes "\<And>s. \<not> list_ex isDigit s \<Longrightarrow> isl (ParseFloat fl s)"
  shows "\<exists>e. New fl opts = Inl (InitParseSize e)"
  using parseSizeBytes_always_error [OF assms, of "''1GB''"] by (auto simp: New_def)

text \<open>
  Claim C6 (the size strings \<open>1GB\<close>, \<open>1024MB\<close>, \<open>1048576KB\<close> and \<open>1073741824\<close> all set the
  budget to 1073741824). The code at these inputs: \<open>parseSizeBytes\<close> hands the unit
  letter \<open>G\<close> to \<open>ParseFloat\<close> and returns its error with 0 (or panics on \<open>m[2]\<close> should
  \<open>ParseFloat\<close> accept it); with floats that are exact on whole numbers, \<open>Size\<close> returns
  an error on each of the four strings and leaves the budget as it was.
\<close>

theorem Size_1GB_fails:
  "parseSizeBytes fl ''1GB'' =
     (case ParseFloat fl ''G'' of Inl e \<Rightarrow> Inr (0, Some e) | Inr b \<Rightarrow> Inl IndexOutOfRange) \<and>
   Size whole_floats (String ''1GB'') (cache_q 5) = Inr (cache_q 5, Some (NumError ''G'')) \<and>
   Size whole_floats (String ''1024MB'') (cache_q 5) = Inr (cache_q 5, Some (NumError ''M'')) \<and>
   Size whole_floats (String ''1048576KB'') (cache_q 5) = Inr (cache_q 5, Some (NumError ''K'')) \<and>
   Size whole_floats (String ''1073741824'') (cache_q 5) = Inr (cache_q 5, Some (NumError []))"
  by (simp add: Size_def parseSizeBytes_def sizexp_eval slice_index_def whole_floats_def
      split: sum.splits)



text \<open>
  Claim C9 (when \<open>parseSizeBytes\<close> returns an error the byte count is 0, and the byte
  count is never negative). Both hold of every return of \<open>parseSizeBytes\<close>, whatever the
  float operations are; and neither check of the fuzzing harness \<open>Fuzz\<close> can fire.
\<close>

theorem parseSizeBytes_error_zero:
  "(parseSizeBytes fl sz = Inr (n, Some e) \<longrightarrow> n = 0) \<and>
   (parseSizeBytes fl sz = Inr (n, err) \<longrightarrow> 0 \<le> sint n) \<and>
   Fuzz fl sz \<noteq> Inl FuzzSizeWithError \<and> Fuzz fl sz \<noteq> Inl FuzzNegativeSize"
proof -
  have "Fuzz fl sz = Inl IndexOutOfRange \<or> Fuzz fl sz = Inr 0"
    using Size_String_cases [of fl sz "zero_cache :: (unit, unit) Cache"]
    by (auto simp: Fuzz_def zero_cache_def)
  then show ?thesis
    using parseSizeBytes_cases [of fl sz] by auto
qed

text \<open>Witness of C9: the strings \<open>bogus\<close> (no match) and \<open>12k\<close> (a match).\<close>

theorem parseSizeBytes_error_zero_witness:
  "parseSizeBytes whole_floats ''bogus'' = Inr (0, Some (UnableToParseSize ''bogus'')) \<and>
   parseSizeBytes whole_floats ''12k'' = Inr (0, Some (NumError ''k'')) \<and>
   sint (0 :: int64) = 0 \<and> Fuzz whole_floats ''12k'' = Inr 0"
proof -
  have a: "parseSizeBytes whole_floats ''bogus'' = Inr (0, Some (UnableToParseSize ''bogus''))"
    by (simp add: parseSizeBytes_def sizexp_eval)
  have b: "parseSizeBytes whole_floats ''12k'' = Inr (0, Some (NumError ''k''))"
    by (simp add: parseSizeBytes_def sizexp_eval slice_index_def whole_floats_def)
  have c: "Fuzz whole_floats ''12k'' = Inr 0"
    by (simp add: Fuzz_def Size_def b zero_cache_def)
  from a b c parseSizeBytes_error_zero [of whole_floats "''bogus''" 0
      "UnableToParseSize ''bogus''" "Some (UnableToParseSize ''bogus'')"]
  show ?thesis by simp
qed

section \<open>\<open>Cache.Request\<close>: hits and the timeout\<close>

text \<open>\<open>Request\<close> hits exactly when the key is in the stable table and its age is below
  the timeout; the flag \<open>immutable\<close> is not read.\<close>

lemma Request_hit_iff:
  "Request c now query immutable = Hit cr \<longleftrightarrow>
     stable c query = Some cr \<and> now - birth cr < timeout c"
  by (auto simp: Request_def split: option.splits)

lemma Request_ignores_immutable: "Request c now query True = Request c now query False"
  by (simp add: Request_def)

text \<open>
  Claim C1 (a request for a stable key is a hit whenever \<open>immutable\<close> is true or the age
  is below the timeout). The code at a stale entry asked for with \<open>immutable = true\<close>:
  the key \<open>q\<close> born at 0, timeout 5, asked at instant 10, reaches the miss path; asked at
  instant 4 it hits.
\<close>

theorem Request_immutable_stale_misses:
  "Request (cache_q 5) 10 ''q'' True = MissPath \<and>
   Request (cache_q 5) 4 ''q'' True = Hit cached_q"
  by (simp add: Request_def cache_q_def cached_q_def)

text \<open>With a timeout of 0, no entry that was born at or before the clock reading hits.\<close>

lemma Timeout_zero_misses:
  "Timeout 0 c = Inr (c', e) \<Longrightarrow> stable c query = Some cr \<Longrightarrow> birth cr \<le> now \<Longrightarrow>
   Request c' now query immutable = MissPath"
  by (auto simp: Timeout_def Request_def)

text \<open>
  Claim C5 (with \<open>Timeout(0)\<close> no entry ever expires). The code after \<open>Timeout 0\<close>: the
  key \<open>q\<close> is in the stable table and is asked for at the instant of its birth and
  later, with either flag; every request reaches the miss path.
\<close>

theorem Timeout_zero_expires_at_once:
  "Timeout 0 (cache_q 5) = Inr (cache_q 0, None) \<and>
   stable (cache_q 0) ''q'' = Some cached_q \<and>
   Request (cache_q 0) 0 ''q'' False = MissPath \<and>
   Request (cache_q 0) 0 ''q'' True = MissPath \<and>
   Request (cache_q 0) 1000 ''q'' True = MissPath"
  by (simp add: Timeout_def Request_def cache_q_def cached_q_def)

section \<open>The pull protocol of the multiplexer\<close>

lemmas mux_eval = newRequest_def on_ask_def on_pull_def on_materialized_def on_asks_closed_def
  getValue_ask_def scripted_def

lemma pull_inv_init: "pull_inv (newRequest b)"
  by (simp add: pull_inv_def newRequest_def)

lemma short_list: "length xs \<le> Suc 0 \<Longrightarrow> xs = [] \<or> (\<exists>x. xs = [x])"
  by (cases xs) auto


lemma pull_inv_on_pull: "pull_inv r \<Longrightarrow> pull_inv (on_pull db k r)"
  by (auto simp: pull_inv_def on_pull_def split: prod.splits dest!: short_list)





text \<open>A run never panics when its asks carry indices that are not negative, as every
  ask sent by \<open>getValue\<close> does.\<close>

lemma on_ask_returns: "0 \<le> ask_index ask \<Longrightarrow> \<exists>r'. on_ask out ask r = Inr r'"
  by (simp add: on_ask_def)

lemma step_returns:
  "(\<And>out ask. ev = Ask out ask \<Longrightarrow> 0 \<le> ask_index ask) \<Longrightarrow> \<exists>r'. step db ev r = Inr r'"
  by (cases ev) (simp_all add: on_ask_returns)

lemma run_returns:
  assumes "\<And>out ask. Ask out ask \<in> set evs \<Longrightarrow> 0 \<le> ask_index ask"
  shows "\<exists>r'. run db evs r = Inr r'"
  using assms
proof (induction evs arbitrary: r)
  case Nil
  then show ?case by simp
next
  case (Cons ev evs)
  have "\<exists>r1. step db ev r = Inr r1"
    using Cons.prems by (intro step_returns) auto
  then obtain r1 where r1: "step db ev r = Inr r1" ..
  have "\<exists>r'. run db evs r1 = Inr r'"
    using Cons.prems by (intro Cons.IH) auto
  with r1 show ?case by simp
qed

lemma run_getValue_asks_returns:
  "\<exists>r'. run db (map (\<lambda>(out, i). Ask out (getValue_ask i)) asks) r = Inr r'"
  by (rule run_returns) (auto simp: getValue_ask_def Let_def)

text \<open>No step writes the view: it is as long after any run as before it.\<close>

lemma step_view: "step db ev r = Inr r' \<Longrightarrow> view r' = view r"
  by (cases ev) (auto simp: on_ask_def on_pull_def on_materialized_def on_asks_closed_def
      split: if_splits prod.splits pull.splits)

lemma run_view: "run db evs r = Inr r' \<Longrightarrow> view r' = view r"
  by (induction evs arbitrary: r) (auto split: sum.splits dest: step_view)




text \<open>What the receipt of a pulled value does: every waiter is sent the same value with
  the same error, the wait set is emptied, and the view is left as it was.\<close>

lemma on_materialized_broadcast:
  assumes "running r" "k < length (pulls r)" "pulls r ! k = Sending val"
  shows "answers (on_materialized k r) = answers r @
           map (\<lambda>ch. (ch, Some \<lparr>ask_index = 0, ask_value = val, ask_err = r_err r\<rparr>)) (waiting r)"
    and "waiting (on_materialized k r) = []"
    and "view (on_materialized k r) = view r"
  using assms by (simp_all add: on_materialized_def)

text \<open>
  Claim C3 (a pulled value is appended to the view and sent to every waiter, so two
  readers asking for the same index receive identical values). The code where one
  reader asks for index 1, its pull is received, and a second reader then asks for
  index 1: the view is still empty, \<open>Materialize\<close> is called a second time, and the two
  readers are sent 10 and 20.
\<close>

theorem same_index_different_values:
  "run scripted
     [Ask 1 (getValue_ask 1), Pull 0, Materialized 0,
      Ask 2 (getValue_ask 1), Pull 0, Materialized 0]
     (newRequest two_values) = Inr served_twice \<and>
   view served_twice = [] \<and>
   n_Materialize served_twice = 2 \<and>
   answers served_twice =
     [(1, Some \<lparr>ask_index = 0, ask_value = Some 10, ask_err = None\<rparr>),
      (2, Some \<lparr>ask_index = 0, ask_value = Some 20, ask_err = None\<rparr>)]"
  by (simp add: mux_eval two_values_def served_twice_def)

text \<open>
  Claim C4, as stated (once an error is recorded, an ask past the view returns it
  without another call of \<open>Materialize\<close>), fails: the first pull fails and its error is
  recorded with one call made; the next ask past the view launches a pull that calls
  \<open>Materialize\<close> again, and its waiter is sent the error of that second call.
\<close>

theorem error_does_not_stop_pulls:
  "run scripted [Ask 1 (getValue_ask 1), Pull 0, Materialized 0] (newRequest two_failures)
     = Inr failed_once \<and>
   r_err failed_once = Some (StreamError ''first'') \<and>
   n_Materialize failed_once = 1 \<and>
   run scripted [Ask 2 (getValue_ask 1), Pull 0, Materialized 0] failed_once = Inr failed_twice \<and>
   n_Materialize failed_twice = 2 \<and>
   r_err failed_twice = Some (StreamError ''second'')"
  by (simp add: mux_eval two_failures_def failed_once_def failed_twice_def)

text \<open>
  Claim C4, amended. A recorded error stays recorded through every ask, every receipt
  and every pull whose \<open>Materialize\<close> reports \<open>true\<close>; a pull leaves it or replaces it by
  what the backend's \<open>Error\<close> then reports; every waiter answered at a receipt is sent the
  recorded error. An ask that reaches past the view when no reader waits launches a new
  pull all the same, and the run of that pull calls \<open>Materialize\<close> once more.
\<close>

theorem stored_error_kept:
  assumes "r_err r = Some e"
  shows "(\<forall>out ask r'. on_ask out ask r = Inr r' \<longrightarrow> r_err r' = Some e) \<and>
         r_err (on_materialized k r) = Some e \<and>
         (\<forall>ch ans. (ch, ans) \<in> set (drop (length (answers r)) (answers (on_materialized k r)))
            \<longrightarrow> (\<exists>a. ans = Some a \<and> ask_err a = Some e)) \<and>
         (snd (fst (db_Materialize db (dbStream r))) \<longrightarrow> r_err (on_pull db k r) = Some e) \<and>
         (r_err (on_pull db k r) = Some e \<or>
          r_err (on_pull db k r) = db_Error db (dbStream (on_pull db k r))) \<and>
         (\<forall>out ask r'. running r \<and> waiting r = [] \<and> \<not> ask_index ask < int (length (view r)) \<and>
              on_ask out ask r = Inr r' \<longrightarrow>
            pulls r' = pulls r @ [Launched] \<and>
            n_Materialize (on_pull db (length (pulls r)) r') = n_Materialize r + 1)"
proof -
  have ask: "r_err r' = Some e" if "on_ask out ask r = Inr r'" for out ask r'
    using that assms by (auto simp: on_ask_def split: if_splits)
  have recv: "r_err (on_materialized k r) = Some e"
    using assms by (simp add: on_materialized_def split: pull.splits)
  have bcast: "\<exists>a. ans = Some a \<and> ask_err a = Some e"
    if "(ch, ans) \<in> set (drop (length (answers r)) (answers (on_materialized k r)))" for ch ans
    using that assms by (auto simp: on_materialized_def split: if_splits pull.splits)
  have ok: "r_err (on_pull db k r) = Some e" if "snd (fst (db_Materialize db (dbStream r)))"
    using that assms by (auto simp: on_pull_def split: prod.splits)
  have pull: "r_err (on_pull db k r) = Some e \<or>
      r_err (on_pull db k r) = db_Error db (dbStream (on_pull db k r))"
    using assms by (auto simp: on_pull_def split: prod.splits)
  have again: "pulls r' = pulls r @ [Launched] \<and>
      n_Materialize (on_pull db (length (pulls r)) r') = n_Materialize r + 1"
    if "running r" "waiting r = []" "\<not> ask_index ask < int (length (view r))"
       "on_ask out ask r = Inr r'" for out ask r'
    using that by (auto simp: on_ask_def on_pull_def split: prod.splits)
  from ask recv bcast ok pull again show ?thesis by blast
qed

text \<open>Witness of C4: the request whose first pull failed, asked again for index 1.\<close>

theorem stored_error_kept_witness:
  "r_err failed_once = Some (StreamError ''first'') \<and>
   on_ask 2 (getValue_ask 1) failed_once
     = Inr (failed_once\<lparr>waiting := [2], pulls := [Launched]\<rparr>) \<and>
   r_err (failed_once\<lparr>waiting := [2], pulls := [Launched]\<rparr>) = Some (StreamError ''first'') \<and>
   n_Materialize (on_pull scripted 0 (failed_once\<lparr>waiting := [2], pulls := [Launched]\<rparr>)) = 2"
proof -
  have e: "r_err failed_once = Some (StreamError ''first'')"
    by (simp add: failed_once_def)
  have a: "on_ask 2 (getValue_ask 1) failed_once
      = Inr (failed_once\<lparr>waiting := [2], pulls := [Launched]\<rparr>)"
    by (simp add: on_ask_def getValue_ask_def failed_once_def)
  have pre: "running failed_once \<and> waiting failed_once = [] \<and> pulls failed_once = [] \<and>
      n_Materialize failed_once = 1 \<and>
      \<not> ask_index (getValue_ask 1 :: nat valueAsk) < int (length (view failed_once))"
    by (simp add: failed_once_def getValue_ask_def)
  note t = stored_error_kept [OF e, of 0 scripted]
  have kept: "r_err (failed_once\<lparr>waiting := [2], pulls := [Launched]\<rparr>) = Some (StreamError ''first'')"
    using t a by blast
  have "n_Materialize (on_pull scripted (length (pulls failed_once))
          (failed_once\<lparr>waiting := [2], pulls := [Launched]\<rparr>)) = n_Materialize failed_once + 1"
    using t a pre by blast
  with pre have again: "n_Materialize (on_pull scripted 0
          (failed_once\<lparr>waiting := [2], pulls := [Launched]\<rparr>)) = 2"
    by simp
  from e a kept again show ?thesis by blast
qed

subsection \<open>The earlier \<open>newRequest\<close> keeps the same protocol\<close>

lemma pull_inv_on_ask_v0: "pull_inv r \<Longrightarrow> on_ask_v0 tmo now out ask r = Inr r' \<Longrightarrow> pull_inv r'"
  by (auto simp: pull_inv_def on_ask_v0_def split: if_splits option.splits)

lemma pull_inv_on_materialized_v0: "pull_inv r \<Longrightarrow> pull_inv (on_materialized_v0 k r)"
  by (auto simp: pull_inv_def on_materialized_v0_def split: pull.splits dest!: short_list)

lemma pull_inv_step_v0: "pull_inv r \<Longrightarrow> step_v0 tmo db ev r = Inr r' \<Longrightarrow> pull_inv r'"
  by (cases "(tmo, db, ev, r)" rule: step_v0.cases)
    (auto simp: pull_inv_on_ask_v0 pull_inv_on_pull pull_inv_on_materialized_v0)

lemma pull_inv_run_v0: "pull_inv r \<Longrightarrow> run_v0 tmo db evs r = Inr r' \<Longrightarrow> pull_inv r'"
proof (induction evs arbitrary: r)
  case Nil
  then show ?case by simp
next
  case (Cons ev evs)
  then show ?case by (auto split: sum.splits dest: pull_inv_step_v0)
qed

lemma at_most_one_pull_v0:
  assumes "run_v0 tmo db evs (newRequest b) = Inr r"
  shows "length (pulls r) \<le> 1"
  using pull_inv_run_v0 [OF pull_inv_init assms] by (simp add: pull_inv_def)

lemma step_v0_view: "step_v0 tmo db ev r = Inr r' \<Longrightarrow> view r' = view r"
  by (cases "(tmo, db, ev, r)" rule: step_v0.cases)
    (auto simp: on_ask_v0_def on_pull_def on_materialized_v0_def
      split: if_splits prod.splits pull.splits option.splits)

lemma run_v0_view: "run_v0 tmo db evs r = Inr r' \<Longrightarrow> view r' = view r"
  by (induction evs arbitrary: r) (auto split: sum.splits dest: step_v0_view)

lemma v0_same_index_different_values:
  "run_v0 5 scripted
     [(0, Ask 1 (snd (getValue_ptr_ask 1))), (0, Pull 0), (0, Materialized 0),
      (0, Ask 2 (snd (getValue_ptr_ask 1))), (0, Pull 0), (0, Materialized 0)]
     (newRequest two_values) = Inr served_twice"
  by (simp add: newRequest_def on_ask_v0_def on_pull_def on_materialized_v0_def
      getValue_ptr_ask_def scripted_def two_values_def served_twice_def)

lemma v0_error_does_not_stop_pulls:
  "run_v0 5 scripted
     [(0, Ask 1 (snd (getValue_ptr_ask 1))), (0, Pull 0), (0, Materialized 0),
      (0, Ask 2 (snd (getValue_ptr_ask 1))), (0, Pull 0), (0, Materialized 0)]
     (newRequest two_failures) = Inr failed_twice"
  by (simp add: newRequest_def on_ask_v0_def on_pull_def on_materialized_v0_def
      getValue_ptr_ask_def scripted_def two_failures_def failed_twice_def)

section \<open>\<open>getValue\<close> and the index it asks for\<close>

text \<open>An ask with a negative index makes \<open>process\<close> panic, in either variant.\<close>

lemma negative_ask_panics:
  "on_ask out \<lparr>ask_index = - 1, ask_value = None, ask_err = None\<rparr> (newRequest b)
     = Inl IndexOutOfRange"
  "on_ask_v0 tmo now out \<lparr>ask_index = - 1, ask_value = None, ask_err = None\<rparr> (newRequest b)
     = Inl IndexOutOfRange"
  by (simp_all add: on_ask_def on_ask_v0_def newRequest_def)

text \<open>
  Claim C10 (\<open>getValue\<close> clamps a negative index to 0 before it asks, so the index asked
  of the view is never negative). For every argument, the ask sent by either \<open>getValue\<close>
  carries the larger of 0 and the argument, the earlier one also stores it in the
  client's index, and \<open>process\<close> never panics indexing the view on such an ask.
\<close>

theorem getValue_index_nonnegative:
  "0 \<le> ask_index (getValue_ask i :: 'v valueAsk) \<and>
   ask_index (getValue_ask i :: 'v valueAsk) = max 0 i \<and>
   on_ask out (getValue_ask i) r \<noteq> Inl IndexOutOfRange \<and>
   on_ask_v0 tmo now out (snd (getValue_ptr_ask i)) r \<noteq> Inl IndexOutOfRange \<and>
   fst (getValue_ptr_ask i :: int \<times> 'v valueAsk) = max 0 i \<and>
   ask_index (snd (getValue_ptr_ask i :: int \<times> 'v valueAsk)) = max 0 i"
  by (auto simp: getValue_ask_def getValue_ptr_ask_def on_ask_def on_ask_v0_def Let_def
      split: option.splits)

text \<open>The goroutine of a new stream increments the index before it asks: its first ask
  is for index 1.\<close>

lemma stream_first_ask:
  "process_select (newStreamMaterializer p)
     = AsksHost ((newStreamMaterializer p)\<lparr>st_index := 1\<rparr>) (getValue_ask 1)"
  by (simp add: process_select_def newStreamMaterializer_def Let_def)

section \<open>A closed stream\<close>

text \<open>
  Claim C8 (after \<open>Close\<close>, \<open>Reset\<close> and \<open>Materialize\<close> are usage errors, and a second
  \<open>Close\<close> returns the stream's error and does nothing else). A \<open>Close\<close> that returns
  leaves the stream closed and returns its error, and closing again returns the same
  with the stream and its host unchanged; on any closed stream \<open>Reset\<close> and
  \<open>Materialize\<close> panic and \<open>Close\<close> returns the stream's error, changing nothing.
\<close>

theorem closed_stream_usage:
  "(Close st host = Inr (e, st', host') \<longrightarrow>
      closed st' \<and> e = st_err st' \<and> Close st' host' = Inr (e, st', host')) \<and>
   (closed st \<longrightarrow>
      Reset st = Inl ResetClosedStream \<and>
      Materialize st = Inl MaterializeClosedStream \<and>
      Close st host = Inr (st_err st, st, host))"
  by (auto simp: Close_def Reset_def Materialize_def Let_def split: if_splits sigchan.splits)

text \<open>Witness of C8: a new stream registered with its host, closed twice.\<close>

theorem closed_stream_usage_witness:
  "Close (newStreamMaterializer 7) host7 = Inr (None, closed7, newRequest two_values) \<and>
   closed closed7 \<and>
   Reset closed7 = Inl ResetClosedStream \<and>
   Materialize closed7 = Inl MaterializeClosedStream \<and>
   Close closed7 (newRequest two_values :: (nat, script) request)
     = Inr (None, closed7, newRequest two_values)"
proof -
  have first: "Close (newStreamMaterializer 7) host7 = Inr (None, closed7, newRequest two_values)"
    by (simp add: Close_def newStreamMaterializer_def removeStream_def newRequest_def
        host7_def closed7_def)
  note t = closed_stream_usage [of "newStreamMaterializer 7" host7 None closed7
      "newRequest two_values"]
  have c: "closed closed7" using t first by blast
  have again: "Close closed7 (newRequest two_values :: (nat, script) request)
      = Inr (None, closed7, newRequest two_values)"
    using t first by blast
  note u = closed_stream_usage [of closed7 "newRequest two_values :: (nat, script) request"]
  have r: "Reset closed7 = Inl ResetClosedStream" using u c by blast
  have m: "Materialize closed7 = Inl MaterializeClosedStream" using u c by blast
  from first c r m again show ?thesis by blast
qed

end
